theory Spec2Isabelle
  imports Complex_Main
begin

section \<open>JavaScript values\<close>

text \<open>
  The validators of \<^verbatim>\<open>addon/-private/validators.js\<close> inspect arbitrary JavaScript
  values with \<^verbatim>\<open>typeof\<close>, \<^verbatim>\<open>===\<close>, \<^verbatim>\<open>instanceof\<close> and
  \<^verbatim>\<open>Array.prototype.includes\<close>. The value model keeps what these operators look at.

  A number is \<^verbatim>\<open>NaN\<close>, an infinity or a finite value. Every finite double is a
  rational; \<^verbatim>\<open>+0\<close> and \<^verbatim>\<open>-0\<close> are one value here, which is how both
  \<^verbatim>\<open>===\<close> and \<^verbatim>\<open>includes\<close> treat them. No validator does arithmetic.
\<close>

datatype jsnum = NaN | PosInfinity | NegInfinity | Finite rat

text \<open>
  Arrays, objects and functions carry a reference (their identity): \<^verbatim>\<open>===\<close> compares
  them by reference, never by content. An object also carries the references of the
  constructors whose \<^verbatim>\<open>prototype\<close> lies on its prototype chain, and its own
  properties in key order. A function carries its \<^verbatim>\<open>name\<close> property, \<open>None\<close> when
  that property is \<^verbatim>\<open>null\<close> or \<^verbatim>\<open>undefined\<close>, and whether its
  \<^verbatim>\<open>prototype\<close> property is an object (it is for a class and for an ordinary
  function, it is not for an arrow function or a method).
\<close>

datatype jsval =
    VUndefined
  | VNull
  | VBool bool
  | VNum jsnum
  | VBigInt int
  | VStr string
  | VSymbol nat
  | VArr nat "jsval list"
  | VObj nat "nat list" "(string \<times> jsval) list"
  | VFn nat "string option" bool

text \<open>The \<^verbatim>\<open>typeof\<close> operator: the primitive runtime type tag.\<close>

fun typeof :: "jsval \<Rightarrow> string" where
  "typeof VUndefined = ''undefined''"
| "typeof VNull = ''object''"
| "typeof (VBool b) = ''boolean''"
| "typeof (VNum n) = ''number''"
| "typeof (VBigInt i) = ''bigint''"
| "typeof (VStr s) = ''string''"
| "typeof (VSymbol s) = ''symbol''"
| "typeof (VArr r xs) = ''object''"
| "typeof (VObj r cs ps) = ''object''"
| "typeof (VFn r n p) = ''function''"

text \<open>
  Strict equality \<^verbatim>\<open>===\<close>: no coercion between types, primitives by value,
  \<^verbatim>\<open>NaN\<close> unequal to everything including itself, objects by reference.
\<close>

fun strictEquals :: "jsval \<Rightarrow> jsval \<Rightarrow> bool" where
  "strictEquals VUndefined y = (y = VUndefined)"
| "strictEquals VNull y = (y = VNull)"
| "strictEquals (VBool a) y = (y = VBool a)"
| "strictEquals (VNum a) y = (a \<noteq> NaN \<and> y = VNum a)"
| "strictEquals (VBigInt a) y = (y = VBigInt a)"
| "strictEquals (VStr a) y = (y = VStr a)"
| "strictEquals (VSymbol a) y = (y = VSymbol a)"
| "strictEquals (VArr r xs) y = (case y of VArr r' ys \<Rightarrow> r = r' | _ \<Rightarrow> False)"
| "strictEquals (VObj r cs ps) y = (case y of VObj r' cs' ps' \<Rightarrow> r = r' | _ \<Rightarrow> False)"
| "strictEquals (VFn r n p) y = (case y of VFn r' n' p' \<Rightarrow> r = r' | _ \<Rightarrow> False)"

text \<open>
  \<^verbatim>\<open>SameValueZero\<close>, the comparison \<^verbatim>\<open>Array.prototype.includes\<close> uses: strict
  equality, except that \<^verbatim>\<open>NaN\<close> is the same as \<^verbatim>\<open>NaN\<close>.
\<close>

definition sameValueZero :: "jsval \<Rightarrow> jsval \<Rightarrow> bool" where
  "sameValueZero x y = (strictEquals x y \<or> (x = VNum NaN \<and> y = VNum NaN))"

text \<open>\<^verbatim>\<open>allowedValues.includes(value)\<close>.\<close>

definition arrayIncludes :: "jsval list \<Rightarrow> jsval \<Rightarrow> bool" where
  "arrayIncludes xs v = list_ex (\<lambda>x. sameValueZero x v) xs"

text \<open>
  How a call can end without returning a value: it throws, and the only exception
  the code of the validators can raise is a \<^verbatim>\<open>TypeError\<close>; or it never ends, which
  the loop of the array validator does on an array-like value of infinite length whose
  items all pass.
\<close>

datatype abrupt = TypeError | NoReturn

text \<open>
  The built-in constructors \<^verbatim>\<open>Object\<close>, \<^verbatim>\<open>Array\<close> and \<^verbatim>\<open>Function\<close> have
  fixed references.
\<close>

definition objectCtor :: nat where "objectCtor = 0"
definition arrayCtor :: nat where "arrayCtor = 1"
definition functionCtor :: nat where "functionCtor = 2"

text \<open>Whether a value is an object in the sense of the language (not a primitive).\<close>

fun isObject :: "jsval \<Rightarrow> bool" where
  "isObject (VArr r xs) = True"
| "isObject (VObj r cs ps) = True"
| "isObject (VFn r n p) = True"
| "isObject _ = False"

text \<open>Whether the prototype of the constructor with reference \<open>k\<close> is on the
  prototype chain of an object.\<close>

fun onPrototypeChain :: "jsval \<Rightarrow> nat \<Rightarrow> bool" where
  "onPrototypeChain (VObj r cs ps) k = (k \<in> set cs)"
| "onPrototypeChain (VArr r xs) k = (k = arrayCtor \<or> k = objectCtor)"
| "onPrototypeChain (VFn r n p) k = (k = functionCtor \<or> k = objectCtor)"
| "onPrototypeChain _ k = False"

text \<open>
  \<^verbatim>\<open>value instanceof klass\<close>. A right-hand side that is not a function throws a
  \<^verbatim>\<open>TypeError\<close> (it is not callable). On a function the result is false for every
  primitive value; for an object the function's \<^verbatim>\<open>prototype\<close> must be an object,
  or else a \<^verbatim>\<open>TypeError\<close> is thrown, and the result is whether that prototype is
  on the prototype chain of the value.
\<close>

fun instanceof :: "jsval \<Rightarrow> jsval \<Rightarrow> abrupt + bool" where
  "instanceof value (VFn k n p) =
     (if \<not> isObject value then Inr False
      else if \<not> p then Inl TypeError
      else Inr (onPrototypeChain value k))"
| "instanceof value klass = Inl TypeError"

text \<open>\<^verbatim>\<open>klass.name\<close>, read once \<^verbatim>\<open>instanceof\<close> has returned: \<open>None\<close> when it is
  \<^verbatim>\<open>null\<close> or \<^verbatim>\<open>undefined\<close>.\<close>

fun nameOf :: "jsval \<Rightarrow> string option" where
  "nameOf (VFn k n p) = n"
| "nameOf klass = None"

text \<open>The conversion to a boolean, as in \<^verbatim>\<open>!obj\<close>.\<close>

fun toBoolean :: "jsval \<Rightarrow> bool" where
  "toBoolean VUndefined = False"
| "toBoolean VNull = False"
| "toBoolean (VBool b) = b"
| "toBoolean (VNum n) = (n \<noteq> NaN \<and> n \<noteq> Finite 0)"
| "toBoolean (VBigInt i) = (i \<noteq> 0)"
| "toBoolean (VStr s) = (s \<noteq> [])"
| "toBoolean v = True"

text \<open>The own property of an object under a key, \<^verbatim>\<open>undefined\<close> when there is none.\<close>

fun ownProperty :: "(string \<times> jsval) list \<Rightarrow> string \<Rightarrow> jsval" where
  "ownProperty ps key = (case map_of ps key of Some v \<Rightarrow> v | None \<Rightarrow> VUndefined)"

text \<open>
  \<^verbatim>\<open>isArray\<close> of \<^verbatim>\<open>@ember/array\<close>, which accepts the array-like values: a native
  array, and an object whose \<^verbatim>\<open>length\<close> is a number other than \<^verbatim>\<open>NaN\<close>, unless
  it has a truthy \<^verbatim>\<open>setInterval\<close>. Every primitive and every function is rejected.
  (Its test for the array mixin of Ember has nothing to look at in this value model.)
\<close>

fun isArray :: "jsval \<Rightarrow> bool" where
  "isArray (VArr r xs) = True"
| "isArray (VObj r cs ps) =
     (\<not> toBoolean (ownProperty ps ''setInterval'')
      \<and> (case ownProperty ps ''length'' of VNum n \<Rightarrow> n \<noteq> NaN | _ \<Rightarrow> False))"
| "isArray _ = False"

text \<open>\<^verbatim>\<open>values.length\<close> of an array-like value, a number.\<close>

fun lengthOf :: "jsval \<Rightarrow> jsnum" where
  "lengthOf (VArr r xs) = Finite (of_nat (length xs))"
| "lengthOf (VObj r cs ps) = (case ownProperty ps ''length'' of VNum n \<Rightarrow> n | _ \<Rightarrow> NaN)"
| "lengthOf _ = NaN"

text \<open>The test \<^verbatim>\<open>i < values.length\<close> of a loop counter against a number.\<close>

fun indexBelow :: "nat \<Rightarrow> jsnum \<Rightarrow> bool" where
  "indexBelow i NaN = False"
| "indexBelow i PosInfinity = True"
| "indexBelow i NegInfinity = False"
| "indexBelow i (Finite q) = (of_nat i < q)"

section \<open>Strings\<close>

text \<open>\<^verbatim>\<open>xs.join(sep)\<close> on a list of strings.\<close>

fun join :: "string \<Rightarrow> string list \<Rightarrow> string" where
  "join sep [] = []"
| "join sep [x] = x"
| "join sep (x # y # ys) = x @ sep @ join sep (y # ys)"

text \<open>The template \<^verbatim>\<open>`${i}`\<close> on a loop counter: its decimal digits.\<close>

definition digit :: "nat \<Rightarrow> char" where
  "digit d = ''0123456789'' ! d"

fun numberToString :: "nat \<Rightarrow> string" where
  "numberToString n =
     (if n < 10 then [digit n] else numberToString (n div 10) @ [digit (n mod 10)])"

declare numberToString.simps [simp del]

text \<open>\<^verbatim>\<open>values[i]\<close> of an array-like value: the item of an array, the own property
  of an object under the digits of \<open>i\<close>, \<^verbatim>\<open>undefined\<close> when there is none.\<close>

fun itemAt :: "jsval \<Rightarrow> nat \<Rightarrow> jsval" where
  "itemAt (VArr r xs) i = (if i < length xs then xs ! i else VUndefined)"
| "itemAt (VObj r cs ps) i = ownProperty ps (numberToString i)"
| "itemAt v i = VUndefined"

section \<open>Context paths, error results and the host\<close>

text \<open>
  A context producer is the closure \<^verbatim>\<open>createContextPath\<close> returns; it is determined
  by the path accumulated so far, its base.
\<close>

datatype contextProducer = ContextProducer string

text \<open>
  Modelled from the spec: \<^verbatim>\<open>createContextPath\<close> of \<^verbatim>\<open>./utils\<close>, which is not
  among the sources. It returns the producer of the given base.
\<close>

definition createContextPath :: "string \<Rightarrow> contextProducer" where
  "createContextPath base = ContextProducer base"

text \<open>
  Modelled from the spec: the call \<^verbatim>\<open>context()\<close> of a producer with no argument,
  which returns its base.
\<close>

fun callContext :: "contextProducer \<Rightarrow> string" where
  "callContext (ContextProducer base) = base"

text \<open>
  Modelled from the spec: the call \<^verbatim>\<open>context(s)\<close> of a producer with a segment,
  which returns a new producer whose base is the old base joined with the segment by a
  dot, or the segment alone when the old base is empty.
\<close>

fun extendContext :: "contextProducer \<Rightarrow> string \<Rightarrow> contextProducer" where
  "extendContext (ContextProducer base) s =
     createContextPath (if base = [] then s else base @ ''.'' @ s)"

text \<open>
  What a validator returns: \<^verbatim>\<open>undefined\<close> (\<open>None\<close>), a bare message string, or the
  two-element array \<^verbatim>\<open>[message, context]\<close>. A call that does not return ends
  abruptly.
\<close>

datatype errorResult = Message string | Located string contextProducer

type_synonym outcome = "abrupt + errorResult option"

type_synonym validator = "jsval \<Rightarrow> contextProducer \<Rightarrow> outcome"

text \<open>
  The test \<^verbatim>\<open>if (error)\<close>: \<^verbatim>\<open>undefined\<close> and the empty string are falsy, every
  other string and every array is truthy.
\<close>

fun truthy :: "errorResult option \<Rightarrow> bool" where
  "truthy None = False"
| "truthy (Some (Message s)) = (s \<noteq> [])"
| "truthy (Some (Located s c)) = True"

text \<open>
  The collaborators the validators import and that are not among the sources:
  \<^verbatim>\<open>get\<close> of \<^verbatim>\<open>@ember/object\<close>, and \<^verbatim>\<open>typeOf\<close> and \<^verbatim>\<open>toString\<close> of
  \<^verbatim>\<open>./utils\<close>. They are parameters of the model: total functions that return a
  value and do not throw. \<^verbatim>\<open>typeOf\<close> and \<^verbatim>\<open>toString\<close> only ever produce parts
  of messages.
\<close>

record host =
  get :: "jsval \<Rightarrow> string \<Rightarrow> jsval"
  typeOf :: "jsval \<Rightarrow> string"
  toString :: "jsval \<Rightarrow> string"

section \<open>The validators\<close>

text \<open>
  A validator specification, as \<^verbatim>\<open>ensureValidator\<close> tells its cases apart: a type
  name (a string), a validator function, a plain mapping from field names to
  specifications in key iteration order (the order of \<^verbatim>\<open>Object.keys\<close>, keys
  distinct), or any other value, a literal.
\<close>

datatype spec =
    TypeName string
  | ValidatorFn validator
  | ShapeMap "(string \<times> spec) list"
  | Literal jsval

text \<open>\<^verbatim>\<open>createTypeValidator\<close>: the returned function takes the value only.\<close>

definition createTypeValidator :: "host \<Rightarrow> string \<Rightarrow> validator" where
  "createTypeValidator h expectedType = (\<lambda>value context.
     if typeof value \<noteq> expectedType
     then Inr (Some (Message (''Expected type '' @ expectedType @ '' but received '' @ typeOf h value)))
     else Inr None)"

text \<open>\<^verbatim>\<open>createEqualityValidator\<close>: the returned function takes the value only.\<close>

definition createEqualityValidator :: "host \<Rightarrow> jsval \<Rightarrow> validator" where
  "createEqualityValidator h expectedValue = (\<lambda>value context.
     if \<not> strictEquals value expectedValue
     then Inr (Some (Message (''Expected value to equal '' @ toString h expectedValue
                              @ '' but received '' @ toString h value)))
     else Inr None)"

text \<open>\<^verbatim>\<open>createInstanceOfValidator\<close>; \<^verbatim>\<open>klass\<close> is any value.
  \<^verbatim>\<open>klass.name ?? toString(klass)\<close> is the name unless it is \<^verbatim>\<open>null\<close> or
  \<^verbatim>\<open>undefined\<close>.\<close>

definition createInstanceOfValidator :: "host \<Rightarrow> jsval \<Rightarrow> validator" where
  "createInstanceOfValidator h klass = (\<lambda>value context.
     case instanceof value klass of
       Inl e \<Rightarrow> Inl e
     | Inr isInstance \<Rightarrow>
         if \<not> isInstance
         then Inr (Some (Located
           (''Expected value to be an instance of ''
              @ (case nameOf klass of Some name \<Rightarrow> name | None \<Rightarrow> toString h klass)
              @ '' but received '' @ toString h value)
           context))
         else Inr None)"

text \<open>
  Modelled from the spec: the contract of the function \<^verbatim>\<open>ensureValidator\<close> returns.
  It is invoked with the value and the context producer; on failure it returns a
  structured error, the message together with the path, and on success it returns
  nothing. So the bare message of a validator that takes the value only comes back
  paired with the context producer of the call.
\<close>

fun structured :: "contextProducer \<Rightarrow> outcome \<Rightarrow> outcome" where
  "structured context (Inr (Some (Message m))) = Inr (Some (Located m context))"
| "structured context r = r"

text \<open>
  Modelled from the spec: \<^verbatim>\<open>ensureValidator\<close> of \<^verbatim>\<open>./utils\<close>, which is not
  among the sources. It dispatches in this order: a string gives
  \<^verbatim>\<open>createTypeValidator(spec)\<close>, a function is taken as it is, a plain mapping gives
  \<^verbatim>\<open>createShapeValidator(spec)\<close>, anything else gives
  \<^verbatim>\<open>createEqualityValidator(spec)\<close>; the function it returns keeps the contract
  above.

  \<^verbatim>\<open>ensureValidator\<close> and \<^verbatim>\<open>createShapeValidator\<close> call each other, so they
  are defined together. \<^verbatim>\<open>createShapeValidator\<close> is the source's: the
  \<^verbatim>\<open>'object'\<close> check through \<^verbatim>\<open>ensureValidator\<close>, the null check, then the
  loop over \<^verbatim>\<open>Object.keys(validators)\<close>, here \<open>shapeLoop\<close>. The recursion ends
  because a field's specification is a part of the mapping that holds it.
\<close>

function ensureValidator :: "host \<Rightarrow> spec \<Rightarrow> jsval \<Rightarrow> contextProducer \<Rightarrow> outcome"
  and createShapeValidator :: "host \<Rightarrow> (string \<times> spec) list \<Rightarrow> jsval \<Rightarrow> contextProducer \<Rightarrow> outcome"
  and shapeLoop :: "host \<Rightarrow> (string \<times> spec) list \<Rightarrow> jsval \<Rightarrow> contextProducer \<Rightarrow> outcome"
where
  "ensureValidator h (TypeName t) value context =
     structured context (createTypeValidator h t value context)"
| "ensureValidator h (ValidatorFn f) value context = structured context (f value context)"
| "ensureValidator h (ShapeMap m) value context =
     structured context (createShapeValidator h m value context)"
| "ensureValidator h (Literal x) value context =
     structured context (createEqualityValidator h x value context)"
| "createShapeValidator h validators value context =
     (case ensureValidator h (TypeName ''object'') value context of
        Inl e \<Rightarrow> Inl e
      | Inr error \<Rightarrow>
          if truthy error then Inr error
          else if value = VNull
          then Inr (Some (Located ''Expected value to be a non-null object but received null'' context))
          else shapeLoop h validators value context)"
| "shapeLoop h [] value context = Inr None"
| "shapeLoop h ((key, validator) # rest) value context =
     (let nextContext = createContextPath (callContext context) in
      case ensureValidator h validator (get h value key) (extendContext nextContext key) of
        Inl e \<Rightarrow> Inl e
      | Inr error \<Rightarrow> if truthy error then Inr error else shapeLoop h rest value context)"
  by pat_completeness auto

termination
  by (relation "measure (\<lambda>x. case x of
      Inl (h, s, v, c) \<Rightarrow> 3 * size s + 1
    | Inr (Inl (h, m, v, c)) \<Rightarrow> 3 * size_list (size_prod (\<lambda>_. 0) size) m + 3
    | Inr (Inr (h, m, v, c)) \<Rightarrow> 3 * size_list (size_prod (\<lambda>_. 0) size) m + 2)")
    auto

text \<open>
  \<^verbatim>\<open>createArrayValidator\<close>: the array check, then the loop
  \<^verbatim>\<open>for (let i = 0; i < values.length; i++)\<close>, here \<open>arrayLoop\<close> from the
  counter \<open>i\<close>. The loop need not end (the length may be infinite), so \<open>arrayLoop\<close>
  is a partial function: \<open>None\<close> when it runs forever, \<open>Some\<close> of the outcome when
  it ends.
\<close>

partial_function (option) arrayLoop ::
    "host \<Rightarrow> spec \<Rightarrow> jsval \<Rightarrow> nat \<Rightarrow> contextProducer \<Rightarrow> outcome option" where
  "arrayLoop h validator values i context =
     (if indexBelow i (lengthOf values)
      then (let nextContext = createContextPath (callContext context) in
            case ensureValidator h validator (itemAt values i)
                   (extendContext nextContext (numberToString i)) of
              Inl e \<Rightarrow> Some (Inl e)
            | Inr error \<Rightarrow>
                if truthy error then Some (Inr error)
                else arrayLoop h validator values (i + 1) context)
      else Some (Inr None))"

definition createArrayValidator :: "host \<Rightarrow> spec \<Rightarrow> validator" where
  "createArrayValidator h validator = (\<lambda>values context.
     if \<not> isArray values
     then Inr (Some (Located (''Expected type array but received '' @ typeOf h values) context))
     else (case arrayLoop h validator values 0 context of
             None \<Rightarrow> Inl NoReturn
           | Some r \<Rightarrow> r))"

text \<open>\<^verbatim>\<open>createOneOfValidator\<close>.\<close>

definition createOneOfValidator :: "host \<Rightarrow> jsval list \<Rightarrow> validator" where
  "createOneOfValidator h allowedValues = (\<lambda>value context.
     if \<not> arrayIncludes allowedValues value
     then Inr (Some (Located
       (''Expected the value to be'' @ (if length allowedValues > 1 then '' one of'' else [])
          @ '' '' @ join '', '' (map (toString h) allowedValues)
          @ '' but received '' @ toString h value)
       context))
     else Inr None)"

text \<open>
  \<^verbatim>\<open>createUnionOfValidator\<close>. The loop over the alternatives collects the errors
  (\<open>unionLoop\<close>, with the array \<^verbatim>\<open>errors\<close> as accumulator); \<open>None\<close> is the
  early \<^verbatim>\<open>return\<close> of the loop, \<open>Some errors\<close> its normal end.

  The callback of \<^verbatim>\<open>errors.map\<close> destructures each error as
  \<^verbatim>\<open>[error, context]\<close> and calls \<^verbatim>\<open>context()\<close>. On a two-element array that is
  the message and the producer, and every error the loop collects is such an array,
  since it comes from a function \<^verbatim>\<open>ensureValidator\<close> returned. On a bare message
  string the destructuring would iterate the string, \<^verbatim>\<open>context\<close> would be its
  second character or \<^verbatim>\<open>undefined\<close>, and the call would throw a \<^verbatim>\<open>TypeError\<close>.
\<close>

fun errorLine :: "errorResult \<Rightarrow> abrupt + string" where
  "errorLine (Located error context) = Inr (callContext context @ '' |> '' @ error)"
| "errorLine (Message s) = Inl TypeError"

fun errorLines :: "errorResult list \<Rightarrow> abrupt + string list" where
  "errorLines [] = Inr []"
| "errorLines (e # es) =
     (case errorLine e of
        Inl x \<Rightarrow> Inl x
      | Inr l \<Rightarrow> (case errorLines es of Inl x \<Rightarrow> Inl x | Inr ls \<Rightarrow> Inr (l # ls)))"

fun unionLoop :: "host \<Rightarrow> spec list \<Rightarrow> jsval \<Rightarrow> contextProducer \<Rightarrow> errorResult list
    \<Rightarrow> abrupt + errorResult list option" where
  "unionLoop h [] value context errors = Inr (Some errors)"
| "unionLoop h (validator # rest) value context errors =
     (case ensureValidator h validator value context of
        Inl e \<Rightarrow> Inl e
      | Inr error \<Rightarrow>
          (case error of
             None \<Rightarrow> Inr None
           | Some e \<Rightarrow>
               if \<not> truthy error then Inr None
               else unionLoop h rest value context (errors @ [e])))"

definition createUnionOfValidator :: "host \<Rightarrow> spec list \<Rightarrow> validator" where
  "createUnionOfValidator h validators = (\<lambda>value context.
     case unionLoop h validators value context [] of
       Inl e \<Rightarrow> Inl e
     | Inr None \<Rightarrow> Inr None
     | Inr (Some errors) \<Rightarrow>
         (case errorLines errors of
            Inl e \<Rightarrow> Inl e
          | Inr ls \<Rightarrow>
              Inr (Some (Located
                (''Expected the value to pass one of the provided validators:\<newline>''
                   @ join ''\<newline>'' ls)
                context))))"

section \<open>A host for concrete inputs\<close>

text \<open>
  The general theorems below hold for every host. To run the validators on concrete
  inputs one host is fixed here.

  Its \<open>get\<close> follows \<^verbatim>\<open>get\<close> of \<^verbatim>\<open>@ember/object\<close>: a key with a dot is a
  path, read segment by segment and \<^verbatim>\<open>undefined\<close> as soon as a value on the way
  is \<^verbatim>\<open>undefined\<close> or \<^verbatim>\<open>null\<close>; any other key is read as a property. A
  property read finds the own properties of an object, the length and the items of an
  array, the length and the characters of a string and the name of a function, and
  gives \<^verbatim>\<open>undefined\<close> otherwise: the properties a value inherits from its
  prototypes are not part of the value model.
\<close>

fun splitOn :: "char \<Rightarrow> string \<Rightarrow> string list" where
  "splitOn sep [] = [[]]"
| "splitOn sep (x # xs) =
     (if x = sep then [] # splitOn sep xs
      else (case splitOn sep xs of [] \<Rightarrow> [[x]] | part # parts \<Rightarrow> (x # part) # parts))"

fun indexed :: "'a list \<Rightarrow> (string \<times> 'a) list" where
  "indexed xs = zip (map numberToString [0..<length xs]) xs"

fun getProp :: "jsval \<Rightarrow> string \<Rightarrow> jsval" where
  "getProp (VObj r cs ps) key = ownProperty ps key"
| "getProp (VArr r xs) key =
     (if key = ''length'' then VNum (Finite (of_nat (length xs)))
      else (case map_of (indexed xs) key of Some v \<Rightarrow> v | None \<Rightarrow> VUndefined))"
| "getProp (VStr s) key =
     (if key = ''length'' then VNum (Finite (of_nat (length s)))
      else (case map_of (indexed s) key of Some c \<Rightarrow> VStr [c] | None \<Rightarrow> VUndefined))"
| "getProp (VFn r n p) key =
     (if key = ''name'' then (case n of Some name \<Rightarrow> VStr name | None \<Rightarrow> VUndefined)
      else VUndefined)"
| "getProp v key = VUndefined"

fun getPath :: "jsval \<Rightarrow> string list \<Rightarrow> jsval" where
  "getPath obj [] = obj"
| "getPath obj (part # parts) =
     (if obj = VUndefined \<or> obj = VNull then VUndefined
      else getPath (getProp obj part) parts)"

definition hostGet :: "jsval \<Rightarrow> string \<Rightarrow> jsval" where
  "hostGet obj key =
     (if CHR ''.'' \<in> set key then getPath obj (splitOn (CHR ''.'') key) else getProp obj key)"

text \<open>
  Modelled from the spec: \<^verbatim>\<open>typeOf\<close> of \<^verbatim>\<open>./utils\<close>, which is not among the
  sources. It is the display kind of a value: the runtime type tag, except that
  \<^verbatim>\<open>null\<close> and arrays are told from other objects.
\<close>

fun hostTypeOf :: "jsval \<Rightarrow> string" where
  "hostTypeOf VNull = ''null''"
| "hostTypeOf (VArr r xs) = ''array''"
| "hostTypeOf v = typeof v"

text \<open>The natural string form of an integer and of a number; a finite number that is
  not an integer is written as a fraction here.\<close>

fun integerToString :: "int \<Rightarrow> string" where
  "integerToString i =
     (if i < 0 then ''-'' @ numberToString (nat (- i)) else numberToString (nat i))"

fun numToString :: "jsnum \<Rightarrow> string" where
  "numToString NaN = ''NaN''"
| "numToString PosInfinity = ''Infinity''"
| "numToString NegInfinity = ''-Infinity''"
| "numToString (Finite q) =
     (case quotient_of q of (n, d) \<Rightarrow>
        if d = 1 then integerToString n else integerToString n @ ''/'' @ integerToString d)"

text \<open>
  Modelled from the spec: \<^verbatim>\<open>toString\<close> of \<^verbatim>\<open>./utils\<close>, which is not among the
  sources. It quotes strings, renders a function as its name when it has one and else
  as a generic token, an array element-wise in brackets, an object as its key: value
  pairs, and everything else in its natural string form. The spec leaves the quote
  character and the generic token open.
\<close>

fun hostToString :: "jsval \<Rightarrow> string"
  and itemsToStrings :: "jsval list \<Rightarrow> string list"
  and propsToStrings :: "(string \<times> jsval) list \<Rightarrow> string list"
where
  "hostToString VUndefined = ''undefined''"
| "hostToString VNull = ''null''"
| "hostToString (VBool b) = (if b then ''true'' else ''false'')"
| "hostToString (VNum n) = numToString n"
| "hostToString (VBigInt i) = integerToString i"
| "hostToString (VStr s) = [CHR 0x22] @ s @ [CHR 0x22]"
| "hostToString (VSymbol s) = ''Symbol()''"
| "hostToString (VArr r xs) = ''['' @ join '', '' (itemsToStrings xs) @ '']''"
| "hostToString (VObj r cs ps) = ''{'' @ join '', '' (propsToStrings ps) @ ''}''"
| "hostToString (VFn r n p) = (case n of Some name \<Rightarrow> name | None \<Rightarrow> ''function'')"
| "itemsToStrings [] = []"
| "itemsToStrings (x # xs) = hostToString x # itemsToStrings xs"
| "propsToStrings [] = []"
| "propsToStrings ((k, v) # ps) = (k @ '': '' @ hostToString v) # propsToStrings ps"

definition exampleHost :: host where
  "exampleHost = \<lparr> get = hostGet, typeOf = hostTypeOf, toString = hostToString \<rparr>"

section \<open>Validators written with the constructors\<close>

text \<open>
  A validator specification as a caller writes it: a type name, a literal, a mapping
  of field names to specifications, or a call of one of the seven constructors, whose
  arguments are specifications again where the constructor resolves them. \<open>specOf\<close>
  gives the specification such an expression denotes: a call of a constructor denotes
  the validator function the constructor returns.
\<close>

datatype validatorExpr =
    TypeNameE string
  | LiteralE jsval
  | ShapeMapE "(string \<times> validatorExpr) list"
  | TypeValidatorE string
  | EqualityValidatorE jsval
  | InstanceOfValidatorE jsval
  | ShapeValidatorE "(string \<times> validatorExpr) list"
  | ArrayValidatorE validatorExpr
  | OneOfValidatorE "jsval list"
  | UnionOfValidatorE "validatorExpr list"

primrec specOf :: "host \<Rightarrow> validatorExpr \<Rightarrow> spec" where
  "specOf h (TypeNameE t) = TypeName t"
| "specOf h (LiteralE x) = Literal x"
| "specOf h (ShapeMapE m) = ShapeMap (map (map_prod id (specOf h)) m)"
| "specOf h (TypeValidatorE t) = ValidatorFn (createTypeValidator h t)"
| "specOf h (EqualityValidatorE x) = ValidatorFn (createEqualityValidator h x)"
| "specOf h (InstanceOfValidatorE klass) = ValidatorFn (createInstanceOfValidator h klass)"
| "specOf h (ShapeValidatorE m) =
     ValidatorFn (createShapeValidator h (map (map_prod id (specOf h)) m))"
| "specOf h (ArrayValidatorE e) = ValidatorFn (createArrayValidator h (specOf h e))"
| "specOf h (OneOfValidatorE allowedValues) = ValidatorFn (createOneOfValidator h allowedValues)"
| "specOf h (UnionOfValidatorE es) = ValidatorFn (createUnionOfValidator h (map (specOf h) es))"



text \<open>An error result is located under a context producer when it is a pair whose
  producer is the given one extended by some segments, none or more.\<close>

definition errorUnder :: "contextProducer \<Rightarrow> errorResult \<Rightarrow> bool" where
  "errorUnder c e = (\<exists>m segs. e = Located m (foldl extendContext c segs))"

section \<open>Properties of the resolver and of the loops\<close>

lemma nextContext_eq: "createContextPath (callContext c) = c"
  by (cases c) (simp add: createContextPath_def)

lemma truthy_Some: "truthy e \<Longrightarrow> \<exists>x. e = Some x"
  by (cases e) auto

lemma strictEquals_refl: "strictEquals x x = (x \<noteq> VNum NaN)"
  by (cases x) auto

lemma strictEquals_typeof: "strictEquals a b \<Longrightarrow> typeof a = typeof b"
  by (cases a; cases b) auto

lemma structured_Some:
  "structured c r = Inr (Some e) \<Longrightarrow> \<exists>m p. e = Located m p"
  by (cases "(c, r)" rule: structured.cases) auto

lemma structured_Inl [simp]: "(structured c r = Inl x) = (r = Inl x)"
  by (cases "(c, r)" rule: structured.cases) auto

lemma structured_None [simp]: "(structured c r = Inr None) = (r = Inr None)"
  by (cases "(c, r)" rule: structured.cases) auto

lemma structured_Located [simp]:
  "structured c (Inr (Some (Located m p))) = Inr (Some (Located m p))"
  by simp

lemma ensureValidator_Located:
  "ensureValidator h s v c = Inr (Some e) \<Longrightarrow> \<exists>m p. e = Located m p"
  by (cases s) (auto dest: structured_Some)

lemma ensureValidator_truthy:
  "ensureValidator h s v c = Inr (Some e) \<Longrightarrow> truthy (Some e)"
  by (auto dest: ensureValidator_Located)

lemma ensureValidator_truthy_iff:
  "ensureValidator h s v c = Inr e \<Longrightarrow> truthy e = (e \<noteq> None)"
  by (cases e) (auto dest: ensureValidator_truthy)

lemma ensureValidator_object:
  "typeof v = ''object'' \<Longrightarrow> ensureValidator h (TypeName ''object'') v c = Inr None"
  by (simp add: createTypeValidator_def)

lemma ensureValidator_not_object:
  "typeof v \<noteq> ''object'' \<Longrightarrow> ensureValidator h (TypeName ''object'') v c
     = Inr (Some (Located (''Expected type object but received '' @ typeOf h v) c))"
  by (simp add: createTypeValidator_def)

lemma unionLoop_short_circuit:
  assumes "\<forall>a \<in> set pre. \<exists>e. ensureValidator h a v c = Inr e \<and> truthy e"
    and "ensureValidator h s v c = Inr e0" and "\<not> truthy e0"
  shows "unionLoop h (pre @ s # post) v c errs = Inr None"
  using assms
proof (induction pre arbitrary: errs)
  case Nil
  then show ?case by (cases e0) auto
next
  case (Cons a pre)
  from Cons.prems(1) obtain e where e: "ensureValidator h a v c = Inr e" "truthy e" by auto
  then obtain x where "e = Some x" using truthy_Some by blast
  with e Cons show ?case by simp
qed

lemma unionLoop_all_fail:
  assumes "list_all2 (\<lambda>s e. ensureValidator h s v c = Inr (Some e)) ss es"
  shows "unionLoop h ss v c errs = Inr (Some (errs @ es))"
  using assms
  by (induction ss es arbitrary: errs rule: list_all2_induct)
    (auto dest: ensureValidator_truthy)

lemma errorLines_Located:
  "errorLines (map (\<lambda>(m, p). Located m p) mps)
     = Inr (map (\<lambda>(m, p). callContext p @ '' |> '' @ m) mps)"
  by (induction mps) auto

lemma all_fail_pairs:
  assumes "\<forall>s \<in> set ss. \<exists>e. ensureValidator h s v c = Inr (Some e)"
  shows "\<exists>mps. list_all2 (\<lambda>s (m, p). ensureValidator h s v c = Inr (Some (Located m p))) ss mps"
  using assms
proof (induction ss)
  case Nil
  then show ?case by simp
next
  case (Cons s ss)
  then obtain mps where mps:
    "list_all2 (\<lambda>s (m, p). ensureValidator h s v c = Inr (Some (Located m p))) ss mps"
    by auto
  from Cons.prems obtain e where "ensureValidator h s v c = Inr (Some e)" by auto
  then obtain m p where "ensureValidator h s v c = Inr (Some (Located m p))"
    using ensureValidator_Located by blast
  with mps have "list_all2 (\<lambda>s (m, p). ensureValidator h s v c = Inr (Some (Located m p)))
      (s # ss) ((m, p) # mps)"
    by simp
  then show ?case by blast
qed

lemma union_of_all_located:
  assumes "list_all2 (\<lambda>s (m, p). ensureValidator h s v c = Inr (Some (Located m p))) ss mps"
  shows "createUnionOfValidator h ss v c
    = Inr (Some (Located
        (''Expected the value to pass one of the provided validators:\<newline>''
           @ join ''\<newline>'' (map (\<lambda>(m, p). callContext p @ '' |> '' @ m) mps))
        c))"
proof -
  from assms have "list_all2 (\<lambda>s e. ensureValidator h s v c = Inr (Some e))
      ss (map (\<lambda>(m, p). Located m p) mps)"
    by (induction ss mps rule: list_all2_induct) auto
  then have "unionLoop h ss v c [] = Inr (Some (map (\<lambda>(m, p). Located m p) mps))"
    using unionLoop_all_fail[of h v c ss _ "[]"] by simp
  then show ?thesis
    by (simp add: createUnionOfValidator_def errorLines_Located)
qed

lemma createShapeValidator_object:
  "typeof v = ''object'' \<Longrightarrow> v \<noteq> VNull \<Longrightarrow> createShapeValidator h fs v c = shapeLoop h fs v c"
  by (simp add: createTypeValidator_def)

lemma createShapeValidator_not_object:
  "typeof v \<noteq> ''object'' \<Longrightarrow> createShapeValidator h fs v c
     = Inr (Some (Located (''Expected type object but received '' @ typeOf h v) c))"
  by (simp add: createTypeValidator_def)

lemma createShapeValidator_null:
  "createShapeValidator h fs VNull c
     = Inr (Some (Located ''Expected value to be a non-null object but received null'' c))"
  by (simp add: createTypeValidator_def)

lemma shapeLoop_first_failure:
  assumes "\<forall>(k', s') \<in> set pre. ensureValidator h s' (get h v k') (extendContext c k') = Inr None"
    and "ensureValidator h s (get h v k) (extendContext c k) = Inr (Some e)"
  shows "shapeLoop h (pre @ (k, s) # post) v c = Inr (Some e)"
  using assms
proof (induction pre)
  case Nil
  then show ?case by (auto simp: nextContext_eq dest: ensureValidator_truthy)
next
  case (Cons a pre)
  obtain k' s' where a: "a = (k', s')" by (cases a)
  with Cons show ?case by (auto simp: nextContext_eq)
qed

lemma shapeLoop_all_pass:
  assumes "\<forall>(k', s') \<in> set fs. ensureValidator h s' (get h v k') (extendContext c k') = Inr None"
  shows "shapeLoop h fs v c = Inr None"
  using assms by (induction fs) (auto simp: nextContext_eq)

lemma indexBelow_mono: "indexBelow j n \<Longrightarrow> i \<le> j \<Longrightarrow> indexBelow i n"
  by (cases n) auto

lemma arrayLoop_first_failure:
  assumes "indexBelow j (lengthOf a)"
    and "\<forall>k. i \<le> k \<and> k < j \<longrightarrow>
      ensureValidator h s (itemAt a k) (extendContext c (numberToString k)) = Inr None"
    and "ensureValidator h s (itemAt a j) (extendContext c (numberToString j)) = Inr (Some e)"
    and "i \<le> j"
  shows "arrayLoop h s a i c = Some (Inr (Some e))"
  using assms
proof (induction "j - i" arbitrary: i)
  case 0
  then have "i = j" by simp
  with 0 show ?case
    by (subst arrayLoop.simps) (auto simp: nextContext_eq dest: ensureValidator_truthy)
next
  case (Suc n)
  then have lt: "i < j" by simp
  with Suc.prems have e: "ensureValidator h s (itemAt a i) (extendContext c (numberToString i)) = Inr None"
    by blast
  have below: "indexBelow i (lengthOf a)"
    using Suc.prems(1) lt by (auto intro: indexBelow_mono)
  have "arrayLoop h s a (i + 1) c = Some (Inr (Some e))"
    using Suc.hyps(2) Suc.prems lt by (intro Suc.hyps(1)) auto
  with e below show ?case
    by (subst arrayLoop.simps) (simp add: nextContext_eq)
qed




lemma arrayLoop_step:
  assumes "indexBelow i (lengthOf a)"
    and "ensureValidator h s (itemAt a i) (extendContext c (numberToString i)) = Inr None"
  shows "arrayLoop h s a i c = arrayLoop h s a (i + 1) c"
  using assms by (subst arrayLoop.simps) (simp add: nextContext_eq)

lemma arrayLoop_stop:
  assumes "indexBelow i (lengthOf a)"
    and "ensureValidator h s (itemAt a i) (extendContext c (numberToString i)) = r"
    and "r \<noteq> Inr None"
  shows "arrayLoop h s a i c = Some r"
proof (cases r)
  case (Inl x)
  with assms show ?thesis by (subst arrayLoop.simps) (simp add: nextContext_eq)
next
  case (Inr e)
  with assms have "truthy e"
    using ensureValidator_truthy_iff[of h s "itemAt a i" "extendContext c (numberToString i)" e]
    by simp
  with Inr assms show ?thesis by (subst arrayLoop.simps) (simp add: nextContext_eq)
qed

lemma arrayLoop_end:
  "\<not> indexBelow i (lengthOf a) \<Longrightarrow> arrayLoop h s a i c = Some (Inr None)"
  by (subst arrayLoop.simps) simp

lemma arrayLoop_result:
  assumes "arrayLoop h s a i c = Some r"
  shows "r = Inr None
    \<or> (\<exists>j. i \<le> j \<and> indexBelow j (lengthOf a)
          \<and> ensureValidator h s (itemAt a j) (extendContext c (numberToString j)) = r)"
  using assms
proof (induction h s a i c r rule: arrayLoop.raw_induct[rotated 1, consumes 1, case_names step])
  case (step loop h s a i c r)
  show ?case
  proof (cases "indexBelow i (lengthOf a)")
    case False
    with step.hyps show ?thesis by simp
  next
    case True
    show ?thesis
    proof (cases "ensureValidator h s (itemAt a i) (extendContext c (numberToString i))")
      case (Inl x)
      with True step.hyps have "r = Inl x" by (simp add: nextContext_eq)
      with True Inl show ?thesis by blast
    next
      case (Inr e)
      show ?thesis
      proof (cases "truthy e")
        case t: True
        with True Inr step.hyps have "r = Inr e" by (simp add: nextContext_eq)
        with True Inr show ?thesis by blast
      next
        case f: False
        with True Inr step.hyps have "loop h s a (i + 1) c = Some r"
          by (simp add: nextContext_eq)
        from step.IH[OF this] show ?thesis
          by (metis Suc_eq_plus1 Suc_leD)
      qed
    qed
  qed
qed








lemma fields_of_map:
  "(k, s) \<in> set (map (map_prod id f) m) \<Longrightarrow> \<exists>e. (k, e) \<in> set m \<and> s = f e"
  by auto


lemma errorUnder_self: "errorUnder c (Located m c)"
  unfolding errorUnder_def by (rule exI[of _ m], rule exI[of _ "[]"]) simp

lemma errorUnder_extend: "errorUnder (extendContext c k) e \<Longrightarrow> errorUnder c e"
  unfolding errorUnder_def
proof -
  assume "\<exists>m segs. e = Located m (foldl extendContext (extendContext c k) segs)"
  then obtain m segs where "e = Located m (foldl extendContext (extendContext c k) segs)" by blast
  then have "e = Located m (foldl extendContext c (k # segs))" by simp
  then show "\<exists>m segs. e = Located m (foldl extendContext c segs)" by blast
qed

lemma structured_errorUnder:
  assumes "structured c r = Inr (Some e)"
    and "\<forall>e'. r = Inr (Some e') \<longrightarrow> (\<exists>m. e' = Message m) \<or> errorUnder c e'"
  shows "errorUnder c e"
proof (cases r)
  case (Inl x)
  with assms show ?thesis by simp
next
  case (Inr o1)
  show ?thesis
  proof (cases o1)
    case None
    with Inr assms show ?thesis by simp
  next
    case (Some e')
    show ?thesis
    proof (cases e')
      case (Message m)
      with Inr Some assms(1) show ?thesis by (auto simp: errorUnder_self)
    next
      case (Located m p)
      with Inr Some assms show ?thesis by auto
    qed
  qed
qed

lemma shapeLoop_errorUnder:
  assumes "\<forall>(k, s) \<in> set m. \<forall>v c e. ensureValidator h s v c = Inr (Some e) \<longrightarrow> errorUnder c e"
    and "shapeLoop h m v c = Inr (Some e)"
  shows "errorUnder c e"
  using assms
proof (induction m)
  case Nil
  then show ?case by simp
next
  case (Cons a m)
  obtain k s where a: "a = (k, s)" by (cases a)
  show ?case
  proof (cases "ensureValidator h s (get h v k) (extendContext c k) = Inr None")
    case True
    with Cons.prems(2) a have "shapeLoop h m v c = Inr (Some e)" by (simp add: nextContext_eq)
    with Cons show ?thesis by simp
  next
    case False
    with Cons.prems(2) a have "ensureValidator h s (get h v k) (extendContext c k) = Inr (Some e)"
      by (auto simp: nextContext_eq split: sum.splits if_splits dest: ensureValidator_truthy)
    with Cons.prems(1) a have "errorUnder (extendContext c k) e" by auto
    then show ?thesis by (rule errorUnder_extend)
  qed
qed

lemma createShapeValidator_errorUnder:
  assumes "\<forall>(k, s) \<in> set m. \<forall>v c e. ensureValidator h s v c = Inr (Some e) \<longrightarrow> errorUnder c e"
    and "createShapeValidator h m v c = Inr (Some e)"
  shows "errorUnder c e"
proof (cases "typeof v = ''object''")
  case False
  with assms(2) createShapeValidator_not_object[of v h m c] show ?thesis
    by (auto simp: errorUnder_self)
next
  case True
  show ?thesis
  proof (cases "v = VNull")
    case null: True
    with assms(2) createShapeValidator_null[of h m c] show ?thesis
      by (auto simp: errorUnder_self)
  next
    case False
    with True assms(2) createShapeValidator_object[of v h m c]
    have "shapeLoop h m v c = Inr (Some e)" by simp
    from shapeLoop_errorUnder[OF assms(1) this] show ?thesis .
  qed
qed

lemma createArrayValidator_errorUnder:
  assumes "\<forall>v c e. ensureValidator h s v c = Inr (Some e) \<longrightarrow> errorUnder c e"
    and "createArrayValidator h s v c = Inr (Some e)"
  shows "errorUnder c e"
proof (cases "isArray v")
  case False
  with assms(2) show ?thesis by (auto simp: createArrayValidator_def errorUnder_self)
next
  case True
  with assms(2) have "arrayLoop h s v 0 c = Some (Inr (Some e))"
    by (auto simp: createArrayValidator_def split: option.splits)
  from arrayLoop_result[OF this] obtain j
    where "ensureValidator h s (itemAt v j) (extendContext c (numberToString j)) = Inr (Some e)"
    by auto
  with assms(1) have "errorUnder (extendContext c (numberToString j)) e" by blast
  then show ?thesis by (rule errorUnder_extend)
qed

lemma createUnionOfValidator_own_context:
  "createUnionOfValidator h ss v c = Inr (Some e) \<Longrightarrow> \<exists>m. e = Located m c"
  by (auto simp: createUnionOfValidator_def split: sum.splits option.splits)

lemma errorUnder_function:
  assumes "\<And>e. f v c = Inr (Some e) \<Longrightarrow> (\<exists>m. e = Message m) \<or> errorUnder c e"
  shows "(ensureValidator h (ValidatorFn f) v c = Inr (Some e) \<longrightarrow> errorUnder c e)
   \<and> (\<forall>g. ValidatorFn f = ValidatorFn g \<longrightarrow> g v c = Inr (Some e)
         \<longrightarrow> (\<exists>m. e = Message m) \<or> errorUnder c e)"
proof (intro conjI impI allI)
  assume "ensureValidator h (ValidatorFn f) v c = Inr (Some e)"
  then have "structured c (f v c) = Inr (Some e)" by simp
  then show "errorUnder c e"
    by (rule structured_errorUnder) (use assms in blast)
next
  fix g assume "ValidatorFn f = ValidatorFn g" and "g v c = Inr (Some e)"
  then show "(\<exists>m. e = Message m) \<or> errorUnder c e" using assms by simp
qed

lemma errorUnder_built:
  "(ensureValidator h (specOf h x) v c = Inr (Some e) \<longrightarrow> errorUnder c e)
   \<and> (\<forall>f. specOf h x = ValidatorFn f \<longrightarrow> f v c = Inr (Some e)
         \<longrightarrow> (\<exists>m. e = Message m) \<or> errorUnder c e)"
proof (induction x arbitrary: v c e)
  case (TypeNameE t)
  then show ?case by (auto simp: createTypeValidator_def errorUnder_self split: if_splits)
next
  case (LiteralE x)
  then show ?case by (auto simp: createEqualityValidator_def errorUnder_self split: if_splits)
next
  case (ShapeMapE m)
  have fields: "\<forall>(k, s) \<in> set (map (map_prod id (specOf h)) m).
      \<forall>v c e. ensureValidator h s v c = Inr (Some e) \<longrightarrow> errorUnder c e"
    using ShapeMapE.IH by fastforce
  show ?case
  proof (intro conjI impI allI)
    assume "ensureValidator h (specOf h (ShapeMapE m)) v c = Inr (Some e)"
    then have "structured c (createShapeValidator h (map (map_prod id (specOf h)) m) v c)
        = Inr (Some e)" by simp
    then show "errorUnder c e"
      by (rule structured_errorUnder) (use createShapeValidator_errorUnder[OF fields] in blast)
  next
    fix f assume "specOf h (ShapeMapE m) = ValidatorFn f"
    then show "(\<exists>m. e = Message m) \<or> errorUnder c e" by simp
  qed
next
  case (TypeValidatorE t)
  show ?case unfolding specOf.simps
    by (rule errorUnder_function) (auto simp: createTypeValidator_def split: if_splits)
next
  case (EqualityValidatorE x)
  show ?case unfolding specOf.simps
    by (rule errorUnder_function) (auto simp: createEqualityValidator_def split: if_splits)
next
  case (InstanceOfValidatorE klass)
  show ?case unfolding specOf.simps
    by (rule errorUnder_function)
      (auto simp: createInstanceOfValidator_def errorUnder_self split: sum.splits if_splits)
next
  case (ShapeValidatorE m)
  have fields: "\<forall>(k, s) \<in> set (map (map_prod id (specOf h)) m).
      \<forall>v c e. ensureValidator h s v c = Inr (Some e) \<longrightarrow> errorUnder c e"
    using ShapeValidatorE.IH by fastforce
  show ?case unfolding specOf.simps
    by (rule errorUnder_function) (use createShapeValidator_errorUnder[OF fields] in blast)
next
  case (ArrayValidatorE x)
  have item: "\<forall>v c e. ensureValidator h (specOf h x) v c = Inr (Some e) \<longrightarrow> errorUnder c e"
    using ArrayValidatorE.IH by blast
  show ?case unfolding specOf.simps
    by (rule errorUnder_function) (use createArrayValidator_errorUnder[OF item] in blast)
next
  case (OneOfValidatorE allowed)
  show ?case unfolding specOf.simps
    by (rule errorUnder_function)
      (auto simp: createOneOfValidator_def errorUnder_self split: if_splits)
next
  case (UnionOfValidatorE xs)
  show ?case unfolding specOf.simps
    by (rule errorUnder_function)
      (auto dest!: createUnionOfValidator_own_context simp: errorUnder_self)
qed

lemma arrayLoop_never_ends_aux:
  assumes "arrayLoop h s a i c = Some r"
  shows "lengthOf a = PosInfinity \<longrightarrow>
    (\<forall>k. ensureValidator h s (itemAt a k) (extendContext c (numberToString k)) = Inr None)
    \<longrightarrow> False"
  using assms
proof (induction h s a i c r rule: arrayLoop.raw_induct[rotated 1, consumes 1, case_names step])
  case (step loop h s a i c r)
  show ?case
  proof (intro impI)
    assume inf: "lengthOf a = PosInfinity"
      and pass: "\<forall>k. ensureValidator h s (itemAt a k) (extendContext c (numberToString k)) = Inr None"
    with step.hyps have "loop h s a (i + 1) c = Some r"
      by (simp add: nextContext_eq)
    from step.IH[OF this] inf pass show False by blast
  qed
qed

lemma array_validator_never_ends:
  assumes "isArray a" and "lengthOf a = PosInfinity"
    and "\<forall>k. ensureValidator h s (itemAt a k) (extendContext c (numberToString k)) = Inr None"
  shows "createArrayValidator h s a c = Inl NoReturn"
proof -
  have "arrayLoop h s a 0 c = None"
  proof (cases "arrayLoop h s a 0 c")
    case (Some r)
    from arrayLoop_never_ends_aux[OF this] assms show ?thesis by blast
  qed simp
  with assms(1) show ?thesis by (simp add: createArrayValidator_def)
qed

lemma last_numberToString: "last (numberToString k) = digit (k mod 10)"
  by (subst numberToString.simps) simp

lemma digit_not_h: "d < 10 \<Longrightarrow> digit d \<noteq> CHR ''h''"
proof -
  assume "d < 10"
  then have "d = 0 \<or> d = 1 \<or> d = 2 \<or> d = 3 \<or> d = 4 \<or> d = 5 \<or> d = 6 \<or> d = 7 \<or> d = 8 \<or> d = 9"
    by arith
  then show ?thesis by (auto simp: digit_def)
qed

lemma numberToString_not_length: "numberToString k \<noteq> ''length''"
proof
  assume "numberToString k = ''length''"
  then have "last (numberToString k) = CHR ''h''" by simp
  then show False using digit_not_h[of "k mod 10"] by (simp add: last_numberToString)
qed

lemma never_ends_example:
  "createArrayValidator exampleHost (TypeName ''undefined'')
     (VObj 1 [objectCtor] [(''length'', VNum PosInfinity)]) (createContextPath ''arg'')
   = Inl NoReturn"
  by (rule array_validator_never_ends)
    (simp_all add: createTypeValidator_def numberToString_not_length)

section \<open>The claims\<close>




text \<open>
  Claim C2: whenever every resolved alternative of a union-of validator fails on the
  value, the validator returns one combined error: its message is the header followed
  by one line \<^verbatim>\<open>path |> message\<close> per alternative, in order, built from the
  alternative's own message and path, and its context is the context producer the
  union was given.
\<close>

theorem union_of_all_fail_combined:
  assumes "\<forall>s \<in> set ss. \<exists>e. ensureValidator h s v c = Inr (Some e)"
  shows "\<exists>mps. list_all2 (\<lambda>s (m, p). ensureValidator h s v c = Inr (Some (Located m p))) ss mps
    \<and> createUnionOfValidator h ss v c
      = Inr (Some (Located
          (''Expected the value to pass one of the provided validators:\<newline>''
             @ join ''\<newline>'' (map (\<lambda>(m, p). callContext p @ '' |> '' @ m) mps))
          c))"
proof -
  from all_fail_pairs[OF assms] obtain mps
    where mps: "list_all2 (\<lambda>s (m, p). ensureValidator h s v c = Inr (Some (Located m p))) ss mps"
    by blast
  from union_of_all_located[OF mps] mps show ?thesis by blast
qed

theorem union_of_all_fail_combined_witness:
  "ensureValidator exampleHost (ValidatorFn (createOneOfValidator exampleHost [VNum (Finite 1)]))
       (VBool True) (createContextPath ''arg'')
     = Inr (Some (Located ''Expected the value to be 1 but received true'' (createContextPath ''arg'')))
   \<and> ensureValidator exampleHost (TypeName ''number'') (VBool True) (createContextPath ''arg'')
     = Inr (Some (Located ''Expected type number but received boolean'' (createContextPath ''arg'')))
   \<and> createUnionOfValidator exampleHost
       [ValidatorFn (createOneOfValidator exampleHost [VNum (Finite 1)]), TypeName ''number'']
       (VBool True) (createContextPath ''arg'')
     = Inr (Some (Located
         ''Expected the value to pass one of the provided validators:\<newline>arg |> Expected the value to be 1 but received true\<newline>arg |> Expected type number but received boolean''
         (createContextPath ''arg'')))"
proof -
  let ?ss = "[ValidatorFn (createOneOfValidator exampleHost [VNum (Finite 1)]), TypeName ''number'']"
  let ?c = "createContextPath ''arg''"
  have 1: "ensureValidator exampleHost (ValidatorFn (createOneOfValidator exampleHost [VNum (Finite 1)]))
       (VBool True) ?c
     = Inr (Some (Located ''Expected the value to be 1 but received true'' ?c))"
    by (simp add: createOneOfValidator_def arrayIncludes_def sameValueZero_def exampleHost_def
        numberToString.simps digit_def)
  have 2: "ensureValidator exampleHost (TypeName ''number'') (VBool True) ?c
     = Inr (Some (Located ''Expected type number but received boolean'' ?c))"
    by (simp add: createTypeValidator_def exampleHost_def)
  have "\<forall>s \<in> set ?ss. \<exists>e. ensureValidator exampleHost s (VBool True) ?c = Inr (Some e)"
    using 1 2 by simp
  from union_of_all_fail_combined[OF this] obtain mps where
    l: "list_all2 (\<lambda>s (m, p). ensureValidator exampleHost s (VBool True) ?c = Inr (Some (Located m p))) ?ss mps"
    and u: "createUnionOfValidator exampleHost ?ss (VBool True) ?c
      = Inr (Some (Located
          (''Expected the value to pass one of the provided validators:\<newline>''
             @ join ''\<newline>'' (map (\<lambda>(m, p). callContext p @ '' |> '' @ m) mps))
          ?c))"
    by blast
  from l 1 2 have "mps = [(''Expected the value to be 1 but received true'', ?c),
      (''Expected type number but received boolean'', ?c)]"
    by (auto simp: list_all2_Cons1)
  with u 1 2 show ?thesis by (simp add: createContextPath_def)
qed

text \<open>
  Claim C3: every validator returns a pair of message and context producer on a
  mismatch, the type and the equality validator included, and a composite validator
  passes a child's error result up unmodified.

  The type and the equality validator return a bare message, not a pair: the
  functions they return take the value only. And the union-of validator is a
  composite that does not pass a child's result up: with a single one-of alternative
  that fails, the union returns another message than the alternative did.
\<close>

theorem unary_validators_and_union_of_differ:
  "createTypeValidator exampleHost ''string'' (VNum (Finite 42)) (createContextPath ''arg'')
     = Inr (Some (Message ''Expected type string but received number''))
   \<and> createEqualityValidator exampleHost (VNum (Finite 1)) (VNum (Finite 42)) (createContextPath ''arg'')
     = Inr (Some (Message ''Expected value to equal 1 but received 42''))
   \<and> ensureValidator exampleHost (ValidatorFn (createOneOfValidator exampleHost [VNum (Finite 1)]))
       (VBool True) (createContextPath ''arg'')
     = Inr (Some (Located ''Expected the value to be 1 but received true'' (createContextPath ''arg'')))
   \<and> createUnionOfValidator exampleHost
       [ValidatorFn (createOneOfValidator exampleHost [VNum (Finite 1)])]
       (VBool True) (createContextPath ''arg'')
     = Inr (Some (Located
         ''Expected the value to pass one of the provided validators:\<newline>arg |> Expected the value to be 1 but received true''
         (createContextPath ''arg'')))"
  by (simp add: createUnionOfValidator_def createOneOfValidator_def createTypeValidator_def
      createEqualityValidator_def arrayIncludes_def sameValueZero_def exampleHost_def
      numberToString.simps digit_def createContextPath_def)

text \<open>
  Claim C3, amended: on a mismatch the type and the equality validator return a bare
  message, which comes back paired with the context producer of the call when the
  validator is resolved by \<^verbatim>\<open>ensureValidator\<close>. The instance-of and the one-of
  validator, the shape validator on a value that is not an object or is
  \<^verbatim>\<open>null\<close>, and the array validator on a value that is not array-like return a
  pair of the message and the context producer they were given. The shape validator
  on a non-null object and the array validator on an array-like value return the
  error result of the first failing child as the child returned it. The union-of
  validator does not pass a child's result up: when every alternative fails it
  returns a new pair, the combined message with its own context producer.
\<close>

theorem error_results_amended:
  "(typeof v \<noteq> t \<longrightarrow>
      createTypeValidator h t v c
        = Inr (Some (Message (''Expected type '' @ t @ '' but received '' @ typeOf h v)))
      \<and> ensureValidator h (TypeName t) v c
        = Inr (Some (Located (''Expected type '' @ t @ '' but received '' @ typeOf h v) c)))
   \<and> (\<not> strictEquals v x \<longrightarrow>
      createEqualityValidator h x v c
        = Inr (Some (Message (''Expected value to equal '' @ toString h x
                               @ '' but received '' @ toString h v)))
      \<and> ensureValidator h (Literal x) v c
        = Inr (Some (Located (''Expected value to equal '' @ toString h x
                               @ '' but received '' @ toString h v) c)))
   \<and> (instanceof v k = Inr False \<longrightarrow>
      createInstanceOfValidator h k v c
        = Inr (Some (Located
            (''Expected value to be an instance of ''
               @ (case nameOf k of Some name \<Rightarrow> name | None \<Rightarrow> toString h k)
               @ '' but received '' @ toString h v) c)))
   \<and> (\<not> arrayIncludes allowed v \<longrightarrow>
      createOneOfValidator h allowed v c
        = Inr (Some (Located
            (''Expected the value to be'' @ (if length allowed > 1 then '' one of'' else [])
               @ '' '' @ join '', '' (map (toString h) allowed)
               @ '' but received '' @ toString h v) c)))
   \<and> (typeof w \<noteq> ''object'' \<longrightarrow>
      createShapeValidator h fs w c
        = Inr (Some (Located (''Expected type object but received '' @ typeOf h w) c)))
   \<and> createShapeValidator h fs VNull c
        = Inr (Some (Located ''Expected value to be a non-null object but received null'' c))
   \<and> (\<not> isArray u \<longrightarrow>
      createArrayValidator h s u c
        = Inr (Some (Located (''Expected type array but received '' @ typeOf h u) c)))
   \<and> (typeof obj = ''object'' \<and> obj \<noteq> VNull
        \<and> (\<forall>(k', s') \<in> set pre. ensureValidator h s' (get h obj k') (extendContext c k') = Inr None)
        \<and> ensureValidator h fieldSpec (get h obj key) (extendContext c key) = Inr (Some fieldError)
      \<longrightarrow> createShapeValidator h (pre @ (key, fieldSpec) # post) obj c = Inr (Some fieldError))
   \<and> (isArray arr \<and> indexBelow j (lengthOf arr)
        \<and> (\<forall>i < j. ensureValidator h itemSpec (itemAt arr i) (extendContext c (numberToString i)) = Inr None)
        \<and> ensureValidator h itemSpec (itemAt arr j) (extendContext c (numberToString j)) = Inr (Some itemError)
      \<longrightarrow> createArrayValidator h itemSpec arr c = Inr (Some itemError))
   \<and> (list_all2 (\<lambda>s (m, p). ensureValidator h s v c = Inr (Some (Located m p))) ss mps
      \<longrightarrow> createUnionOfValidator h ss v c
        = Inr (Some (Located
            (''Expected the value to pass one of the provided validators:\<newline>''
               @ join ''\<newline>'' (map (\<lambda>(m, p). callContext p @ '' |> '' @ m) mps))
            c)))"
proof (intro conjI impI)
  show "createTypeValidator h t v c
        = Inr (Some (Message (''Expected type '' @ t @ '' but received '' @ typeOf h v)))"
    if "typeof v \<noteq> t"
    using that by (simp add: createTypeValidator_def)
  show "ensureValidator h (TypeName t) v c
        = Inr (Some (Located (''Expected type '' @ t @ '' but received '' @ typeOf h v) c))"
    if "typeof v \<noteq> t"
    using that by (simp add: createTypeValidator_def)
  show "createEqualityValidator h x v c
        = Inr (Some (Message (''Expected value to equal '' @ toString h x
                               @ '' but received '' @ toString h v)))"
    if "\<not> strictEquals v x"
    using that by (simp add: createEqualityValidator_def)
  show "ensureValidator h (Literal x) v c
        = Inr (Some (Located (''Expected value to equal '' @ toString h x
                               @ '' but received '' @ toString h v) c))"
    if "\<not> strictEquals v x"
    using that by (simp add: createEqualityValidator_def)
  show "createInstanceOfValidator h k v c
        = Inr (Some (Located
            (''Expected value to be an instance of ''
               @ (case nameOf k of Some name \<Rightarrow> name | None \<Rightarrow> toString h k)
               @ '' but received '' @ toString h v) c))"
    if "instanceof v k = Inr False"
    using that by (simp add: createInstanceOfValidator_def)
  show "createOneOfValidator h allowed v c
        = Inr (Some (Located
            (''Expected the value to be'' @ (if length allowed > 1 then '' one of'' else [])
               @ '' '' @ join '', '' (map (toString h) allowed)
               @ '' but received '' @ toString h v) c))"
    if "\<not> arrayIncludes allowed v"
    using that by (simp add: createOneOfValidator_def)
  show "createShapeValidator h fs w c
        = Inr (Some (Located (''Expected type object but received '' @ typeOf h w) c))"
    if "typeof w \<noteq> ''object''"
    using that by (rule createShapeValidator_not_object)
  show "createShapeValidator h fs VNull c
        = Inr (Some (Located ''Expected value to be a non-null object but received null'' c))"
    by (rule createShapeValidator_null)
  show "createArrayValidator h s u c
        = Inr (Some (Located (''Expected type array but received '' @ typeOf h u) c))"
    if "\<not> isArray u"
    using that by (simp add: createArrayValidator_def)
  show "createShapeValidator h (pre @ (key, fieldSpec) # post) obj c = Inr (Some fieldError)"
    if "typeof obj = ''object'' \<and> obj \<noteq> VNull
        \<and> (\<forall>(k', s') \<in> set pre. ensureValidator h s' (get h obj k') (extendContext c k') = Inr None)
        \<and> ensureValidator h fieldSpec (get h obj key) (extendContext c key) = Inr (Some fieldError)"
  proof -
    from that have "shapeLoop h (pre @ (key, fieldSpec) # post) obj c = Inr (Some fieldError)"
      by (intro shapeLoop_first_failure) auto
    with that createShapeValidator_object[of obj h "pre @ (key, fieldSpec) # post" c]
    show ?thesis by auto
  qed
  show "createArrayValidator h itemSpec arr c = Inr (Some itemError)"
    if "isArray arr \<and> indexBelow j (lengthOf arr)
        \<and> (\<forall>i < j. ensureValidator h itemSpec (itemAt arr i) (extendContext c (numberToString i)) = Inr None)
        \<and> ensureValidator h itemSpec (itemAt arr j) (extendContext c (numberToString j)) = Inr (Some itemError)"
  proof -
    from that have "arrayLoop h itemSpec arr 0 c = Some (Inr (Some itemError))"
      by (intro arrayLoop_first_failure[where j = j]) auto
    with that show ?thesis by (auto simp: createArrayValidator_def)
  qed
  show "createUnionOfValidator h ss v c
        = Inr (Some (Located
            (''Expected the value to pass one of the provided validators:\<newline>''
               @ join ''\<newline>'' (map (\<lambda>(m, p). callContext p @ '' |> '' @ m) mps))
            c))"
    if "list_all2 (\<lambda>s (m, p). ensureValidator h s v c = Inr (Some (Located m p))) ss mps"
    using that by (rule union_of_all_located)
qed

theorem error_results_amended_witness:
  "createTypeValidator exampleHost ''string'' (VBool True) (createContextPath ''arg'')
     = Inr (Some (Message ''Expected type string but received boolean''))
   \<and> ensureValidator exampleHost (TypeName ''string'') (VBool True) (createContextPath ''arg'')
     = Inr (Some (Located ''Expected type string but received boolean'' (createContextPath ''arg'')))
   \<and> createEqualityValidator exampleHost (VNum (Finite 1)) (VBool True) (createContextPath ''arg'')
     = Inr (Some (Message ''Expected value to equal 1 but received true''))
   \<and> ensureValidator exampleHost (Literal (VNum (Finite 1))) (VBool True) (createContextPath ''arg'')
     = Inr (Some (Located ''Expected value to equal 1 but received true'' (createContextPath ''arg'')))
   \<and> createInstanceOfValidator exampleHost (VFn 7 (Some ''Date'') True) (VBool True) (createContextPath ''arg'')
     = Inr (Some (Located ''Expected value to be an instance of Date but received true''
         (createContextPath ''arg'')))
   \<and> createOneOfValidator exampleHost [VNum (Finite 1)] (VBool True) (createContextPath ''arg'')
     = Inr (Some (Located ''Expected the value to be 1 but received true'' (createContextPath ''arg'')))
   \<and> createShapeValidator exampleHost [(''a'', Literal (VNum (Finite 1)))] (VBool True) (createContextPath ''arg'')
     = Inr (Some (Located ''Expected type object but received boolean'' (createContextPath ''arg'')))
   \<and> createShapeValidator exampleHost [(''a'', Literal (VNum (Finite 1)))] VNull (createContextPath ''arg'')
     = Inr (Some (Located ''Expected value to be a non-null object but received null''
         (createContextPath ''arg'')))
   \<and> createArrayValidator exampleHost (Literal (VNum (Finite 1))) (VBool True) (createContextPath ''arg'')
     = Inr (Some (Located ''Expected type array but received boolean'' (createContextPath ''arg'')))
   \<and> createShapeValidator exampleHost
       ([(''b'', Literal (VNum (Finite 1)))] @ (''a'', Literal (VNum (Finite 1)))
          # [(''c'', ValidatorFn (\<lambda>value ctx. Inl TypeError))])
       (VObj 1 [objectCtor] [(''a'', VBool True), (''b'', VNum (Finite 1))]) (createContextPath ''arg'')
     = Inr (Some (Located ''Expected value to equal 1 but received true'' (createContextPath ''arg.a'')))
   \<and> createArrayValidator exampleHost (Literal (VNum (Finite 1)))
       (VArr 2 [VNum (Finite 1), VBool True, VBool False]) (createContextPath ''arg'')
     = Inr (Some (Located ''Expected value to equal 1 but received true'' (createContextPath ''arg.1'')))
   \<and> createUnionOfValidator exampleHost [TypeName ''string'', Literal (VNum (Finite 1))]
       (VBool True) (createContextPath ''arg'')
     = Inr (Some (Located
         ''Expected the value to pass one of the provided validators:\<newline>arg |> Expected type string but received boolean\<newline>arg |> Expected value to equal 1 but received true''
         (createContextPath ''arg'')))"
proof -
  let ?h = exampleHost
  let ?c = "createContextPath ''arg''"
  let ?one = "VNum (Finite 1)"
  let ?obj = "VObj 1 [objectCtor] [(''a'', VBool True), (''b'', VNum (Finite 1))]"
  let ?arr = "VArr 2 [VNum (Finite 1), VBool True, VBool False]"
  note defs = createTypeValidator_def createEqualityValidator_def createInstanceOfValidator_def
    createOneOfValidator_def arrayIncludes_def sameValueZero_def exampleHost_def hostGet_def
    numberToString.simps digit_def createContextPath_def
  have t: "typeof (VBool True) \<noteq> ''string''" by simp
  have q: "\<not> strictEquals (VBool True) ?one" by simp
  have i: "instanceof (VBool True) (VFn 7 (Some ''Date'') True) = Inr False" by simp
  have o: "\<not> arrayIncludes [?one] (VBool True)" by (simp add: arrayIncludes_def sameValueZero_def)
  have w: "typeof (VBool True) \<noteq> ''object''" by simp
  have u: "\<not> isArray (VBool True)" by simp
  have sh: "typeof ?obj = ''object'' \<and> ?obj \<noteq> VNull
      \<and> (\<forall>(k', s') \<in> set [(''b'', Literal ?one)].
            ensureValidator ?h s' (get ?h ?obj k') (extendContext ?c k') = Inr None)
      \<and> ensureValidator ?h (Literal ?one) (get ?h ?obj ''a'') (extendContext ?c ''a'')
          = Inr (Some (Located ''Expected value to equal 1 but received true'' (createContextPath ''arg.a'')))"
    by (simp add: defs)
  have ar: "isArray ?arr \<and> indexBelow 1 (lengthOf ?arr)
      \<and> (\<forall>i < 1. ensureValidator ?h (Literal ?one) (itemAt ?arr i) (extendContext ?c (numberToString i)) = Inr None)
      \<and> ensureValidator ?h (Literal ?one) (itemAt ?arr 1) (extendContext ?c (numberToString 1))
          = Inr (Some (Located ''Expected value to equal 1 but received true'' (createContextPath ''arg.1'')))"
    by (simp add: defs)
  have un: "list_all2 (\<lambda>s (m, p). ensureValidator ?h s (VBool True) ?c = Inr (Some (Located m p)))
      [TypeName ''string'', Literal ?one]
      [(''Expected type string but received boolean'', ?c), (''Expected value to equal 1 but received true'', ?c)]"
    by (simp add: defs)
  from error_results_amended [where h = ?h and v = "VBool True" and t = "''string''" and c = ?c
      and x = ?one and k = "VFn 7 (Some ''Date'') True" and allowed = "[?one]"
      and w = "VBool True" and fs = "[(''a'', Literal ?one)]" and u = "VBool True" and s = "Literal ?one"
      and obj = ?obj and pre = "[(''b'', Literal ?one)]" and fieldSpec = "Literal ?one" and key = "''a''"
      and fieldError = "Located ''Expected value to equal 1 but received true'' (createContextPath ''arg.a'')"
      and post = "[(''c'', ValidatorFn (\<lambda>value ctx. Inl TypeError))]"
      and arr = ?arr and j = 1 and itemSpec = "Literal ?one"
      and itemError = "Located ''Expected value to equal 1 but received true'' (createContextPath ''arg.1'')"
      and ss = "[TypeName ''string'', Literal ?one]"
      and mps = "[(''Expected type string but received boolean'', ?c), (''Expected value to equal 1 but received true'', ?c)]"]
    t q i o w u sh ar un
  show ?thesis
    by (simp add: exampleHost_def createContextPath_def)
qed

text \<open>
  Claim C4: the equality validator is reflexive, \<^verbatim>\<open>createEqualityValidator(x)(x)\<close>
  succeeds for every \<^verbatim>\<open>x\<close>, \<^verbatim>\<open>NaN\<close> included.

  It fails on \<^verbatim>\<open>NaN\<close>: the validator compares with \<^verbatim>\<open>!==\<close>, and
  \<^verbatim>\<open>NaN !== NaN\<close> holds.
\<close>

theorem equality_NaN_fails:
  "createEqualityValidator exampleHost (VNum NaN) (VNum NaN) (createContextPath '''')
     = Inr (Some (Message ''Expected value to equal NaN but received NaN''))"
  by (simp add: createEqualityValidator_def exampleHost_def)

text \<open>
  Claim C4, amended: \<^verbatim>\<open>createEqualityValidator(x)(x)\<close> succeeds for every value
  \<^verbatim>\<open>x\<close> other than \<^verbatim>\<open>NaN\<close>, and for no other.
\<close>

theorem equality_reflexive_except_NaN:
  "(createEqualityValidator h x x c = Inr None) = (x \<noteq> VNum NaN)"
  by (simp add: createEqualityValidator_def strictEquals_refl)

theorem equality_reflexive_except_NaN_witness:
  "createEqualityValidator exampleHost (VStr ''a'') (VStr ''a'') (createContextPath '''') = Inr None
   \<and> createEqualityValidator exampleHost (VObj 3 [objectCtor] []) (VObj 3 [objectCtor] [])
       (createContextPath '''') = Inr None
   \<and> createEqualityValidator exampleHost (VNum NaN) (VNum NaN) (createContextPath '''') \<noteq> Inr None"
  using equality_reflexive_except_NaN [of exampleHost "VStr ''a''" "createContextPath ''''"]
    equality_reflexive_except_NaN [of exampleHost "VObj 3 [objectCtor] []" "createContextPath ''''"]
    equality_reflexive_except_NaN [of exampleHost "VNum NaN" "createContextPath ''''"]
  by simp

text \<open>
  Claim C5: the one-of validator succeeds if and only if some allowed value is strictly
  equal (\<^verbatim>\<open>===\<close>) to the value.

  It succeeds on \<^verbatim>\<open>NaN\<close> when \<^verbatim>\<open>NaN\<close> is allowed, though \<^verbatim>\<open>NaN\<close> is not
  strictly equal to itself: \<^verbatim>\<open>includes\<close> compares with SameValueZero.
\<close>

theorem one_of_includes_NaN:
  "createOneOfValidator exampleHost [VNum NaN] (VNum NaN) (createContextPath '''') = Inr None
   \<and> \<not> strictEquals (VNum NaN) (VNum NaN)"
  by (simp add: createOneOfValidator_def arrayIncludes_def sameValueZero_def)

text \<open>
  Claim C5, amended: the one-of validator succeeds if and only if some allowed value is
  strictly equal to the value, or is \<^verbatim>\<open>NaN\<close> when the value is \<^verbatim>\<open>NaN\<close>.
  Membership uses no coercion (it fails when no allowed value has the value's type) and
  no structural equality (an object or array is a member only by reference).
\<close>

theorem one_of_same_value_zero:
  "((createOneOfValidator h allowed v c = Inr None)
      = (\<exists>a \<in> set allowed. strictEquals a v \<or> (a = VNum NaN \<and> v = VNum NaN)))
   \<and> ((\<forall>a \<in> set allowed. typeof a \<noteq> typeof v) \<longrightarrow> createOneOfValidator h allowed v c \<noteq> Inr None)
   \<and> ((createOneOfValidator h [VObj r cs ps] (VObj r' cs' ps') c = Inr None) = (r = r'))
   \<and> ((createOneOfValidator h [VArr r xs] (VArr r' ys) c = Inr None) = (r = r'))"
  by (auto simp: createOneOfValidator_def arrayIncludes_def sameValueZero_def list_ex_iff
      dest: strictEquals_typeof)

theorem one_of_same_value_zero_witness:
  "createOneOfValidator exampleHost [VNum (Finite 1), VStr ''a''] (VStr ''a'') (createContextPath '''')
     = Inr None
   \<and> createOneOfValidator exampleHost [VNum NaN] (VNum NaN) (createContextPath '''') = Inr None
   \<and> createOneOfValidator exampleHost [VNum (Finite 1)] (VStr ''1'') (createContextPath '''') \<noteq> Inr None
   \<and> createOneOfValidator exampleHost [VObj 1 [objectCtor] []] (VObj 2 [objectCtor] [])
       (createContextPath '''') \<noteq> Inr None
   \<and> createOneOfValidator exampleHost [VArr 1 []] (VArr 2 []) (createContextPath '''') \<noteq> Inr None"
  using one_of_same_value_zero [where h = exampleHost and allowed = "[VNum (Finite 1), VStr ''a'']"
      and v = "VStr ''a''" and c = "createContextPath ''''"]
    one_of_same_value_zero [where h = exampleHost and allowed = "[VNum NaN]"
      and v = "VNum NaN" and c = "createContextPath ''''"]
    one_of_same_value_zero [where h = exampleHost and allowed = "[VNum (Finite 1)]"
      and v = "VStr ''1''" and c = "createContextPath ''''" and r = 1 and r' = 2
      and cs = "[objectCtor]" and cs' = "[objectCtor]" and ps = "[]" and ps' = "[]"
      and xs = "[]" and ys = "[]"]
  by simp

text \<open>
  Claim C6: the union-of validator tries its alternatives in order and succeeds as soon
  as one reports no error: when the alternatives before it each reported an error, the
  union returns no error, however many they were and whatever the alternatives after it
  are, which are not evaluated.
\<close>

theorem union_of_short_circuits:
  assumes "\<forall>a \<in> set pre. \<exists>e. ensureValidator h a v c = Inr e \<and> truthy e"
    and "ensureValidator h s v c = Inr e0" and "\<not> truthy e0"
  shows "createUnionOfValidator h (pre @ s # post) v c = Inr None"
  using unionLoop_short_circuit[OF assms, of post "[]"]
  by (simp add: createUnionOfValidator_def)

text \<open>The witness: two failing alternatives, then \<^verbatim>\<open>'string'\<close> on a string, then an
  alternative that would throw if it were called.\<close>

theorem union_of_short_circuits_witness:
  "createUnionOfValidator exampleHost
     ([TypeName ''number'', Literal (VBool True)] @ TypeName ''string''
        # [ValidatorFn (\<lambda>value ctx. Inl TypeError), TypeName ''number''])
     (VStr ''x'') (createContextPath '''') = Inr None"
proof -
  have 1: "\<forall>a \<in> set [TypeName ''number'', Literal (VBool True)].
      \<exists>e. ensureValidator exampleHost a (VStr ''x'') (createContextPath '''') = Inr e \<and> truthy e"
    by (simp add: createTypeValidator_def createEqualityValidator_def)
  have 2: "ensureValidator exampleHost (TypeName ''string'') (VStr ''x'') (createContextPath '''')
      = Inr None"
    by (simp add: createTypeValidator_def)
  have 3: "\<not> truthy None" by simp
  show ?thesis by (rule union_of_short_circuits[OF 1 2 3])
qed

text \<open>
  Claim C7: on a non-null object the shape validator returns exactly the first field
  failure in key order, with that error's path extended by the failing field's key; it
  does not aggregate, and the fields after the first failing one are not validated.

  When the fields before a field pass and the validator of that field, called on the
  property under the context extended by the key, returns an error, the shape
  validator returns that error, whatever the fields after it are. For a type name as
  the field's specification the error is the type message at the path extended by the
  key; for every specification written with the constructors it is a pair whose path is
  the path extended by the key, and then by the segments of the failing part of the
  property, if any.
\<close>

theorem shape_returns_first_field_failure:
  assumes "typeof v = ''object''" and "v \<noteq> VNull"
    and "\<forall>(k', s') \<in> set pre. ensureValidator h s' (get h v k') (extendContext c k') = Inr None"
    and "ensureValidator h s (get h v k) (extendContext c k) = Inr (Some e)"
  shows "createShapeValidator h (pre @ (k, s) # post) v c = Inr (Some e)
    \<and> (\<forall>t. s = TypeName t \<longrightarrow>
          e = Located (''Expected type '' @ t @ '' but received '' @ typeOf h (get h v k))
                (extendContext c k))
    \<and> (\<forall>x. s = specOf h x \<longrightarrow>
          (\<exists>m segs. e = Located m (foldl extendContext (extendContext c k) segs)))"
proof (intro conjI allI impI)
  from assms(3,4) have "shapeLoop h (pre @ (k, s) # post) v c = Inr (Some e)"
    by (rule shapeLoop_first_failure)
  then show "createShapeValidator h (pre @ (k, s) # post) v c = Inr (Some e)"
    by (simp only: createShapeValidator_object[OF assms(1,2)])
next
  fix t assume "s = TypeName t"
  with assms(4) show "e = Located (''Expected type '' @ t @ '' but received '' @ typeOf h (get h v k))
      (extendContext c k)"
    by (auto simp: createTypeValidator_def split: if_splits)
next
  fix x assume "s = specOf h x"
  with assms(4) errorUnder_built[of h x "get h v k" "extendContext c k" e]
  show "\<exists>m segs. e = Located m (foldl extendContext (extendContext c k) segs)"
    by (simp add: errorUnder_def)
qed

text \<open>The witness: the field \<^verbatim>\<open>b\<close> passes, the field \<^verbatim>\<open>a\<close> fails, the field
  \<^verbatim>\<open>c\<close> would throw if it were validated, and the field \<^verbatim>\<open>d\<close> would fail
  too.\<close>

theorem shape_returns_first_field_failure_witness:
  "createShapeValidator exampleHost
     ([(''b'', TypeName ''string'')] @ (''a'', TypeName ''number'')
        # [(''c'', ValidatorFn (\<lambda>value ctx. Inl TypeError)), (''d'', TypeName ''number'')])
     (VObj 1 [objectCtor] [(''a'', VStr ''x''), (''b'', VStr ''y''), (''d'', VStr ''z'')])
     (createContextPath ''arg'')
   = Inr (Some (Located ''Expected type number but received string'' (createContextPath ''arg.a'')))"
proof -
  let ?h = exampleHost
  let ?c = "createContextPath ''arg''"
  let ?obj = "VObj 1 [objectCtor] [(''a'', VStr ''x''), (''b'', VStr ''y''), (''d'', VStr ''z'')]"
  note defs = createTypeValidator_def exampleHost_def hostGet_def createContextPath_def
  have 1: "typeof ?obj = ''object''" by simp
  have 2: "?obj \<noteq> VNull" by simp
  have 3: "\<forall>(k', s') \<in> set [(''b'', TypeName ''string'')].
      ensureValidator ?h s' (get ?h ?obj k') (extendContext ?c k') = Inr None"
    by (simp add: defs)
  have 4: "ensureValidator ?h (TypeName ''number'') (get ?h ?obj ''a'') (extendContext ?c ''a'')
      = Inr (Some (Located ''Expected type number but received string'' (createContextPath ''arg.a'')))"
    by (simp add: defs)
  from shape_returns_first_field_failure[OF 1 2 3 4] show ?thesis by blast
qed




text \<open>
  Claim C9: \<^verbatim>\<open>createTypeValidator(t)(v)\<close> succeeds if and only if \<^verbatim>\<open>typeof v\<close> is
  exactly \<^verbatim>\<open>t\<close>, and otherwise returns an error; for \<^verbatim>\<open>'string'\<close> the value
  \<^verbatim>\<open>'x'\<close> passes and the value 42 fails.
\<close>

theorem type_validator_iff_typeof:
  "((createTypeValidator h t v c = Inr None) = (typeof v = t))
   \<and> (\<exists>e. createTypeValidator h t v c = Inr e \<and> truthy e = (typeof v \<noteq> t))
   \<and> createTypeValidator h ''string'' (VStr ''x'') c = Inr None
   \<and> createTypeValidator h ''string'' (VNum (Finite 42)) c \<noteq> Inr None"
  by (simp add: createTypeValidator_def)

theorem type_validator_iff_typeof_witness:
  "createTypeValidator exampleHost ''string'' (VStr ''x'') (createContextPath '''') = Inr None
   \<and> createTypeValidator exampleHost ''string'' (VNum (Finite 42)) (createContextPath '''')
     = Inr (Some (Message ''Expected type string but received number''))
   \<and> createTypeValidator exampleHost ''object'' VNull (createContextPath '''') = Inr None"
  using type_validator_iff_typeof [of exampleHost "''string''" "VStr ''x''" "createContextPath ''''"]
  by (simp add: createTypeValidator_def exampleHost_def)

text \<open>
  Claim C10: a union-of validator built from the empty sequence fails every value: it
  returns the aggregation header alone, with no alternative line, paired with the
  context it was given.
\<close>

theorem union_of_empty:
  "createUnionOfValidator h [] v c
     = Inr (Some (Located ''Expected the value to pass one of the provided validators:\<newline>'' c))"
  by (simp add: createUnionOfValidator_def)

end
